theory Spec2Isabelle
  imports Complex_Main
begin

section \<open>Chlorine contact tank: the disinfection calculation engine\<close>

text \<open>
  A shallow embedding of \<^verbatim>\<open>src/utils/calculations.ts\<close> with the types of
  \<^verbatim>\<open>types.ts\<close> and the constants of \<^verbatim>\<open>constants.ts\<close>.

  The function is embedded twice, for the two things a JavaScript \<^verbatim>\<open>number\<close> is.

  \<^item> \<open>calculateResults\<close> reads a number as a \<^typ>\<open>real\<close> and the operators as exact
    arithmetic. It gives the values and the formulas of the results. Every division of
    the source is either guarded by the source itself (\<^verbatim>\<open>flowRate > 0\<close>,
    \<^verbatim>\<open>q_m3h > 0\<close>), has a denominator that cannot be zero (\<^verbatim>\<open>100\<close>, \<^verbatim>\<open>2\<close>,
    \<^verbatim>\<open>24\<close>, \<^verbatim>\<open>Math.max(alkalinity, 10)\<close>, \<^verbatim>\<open>1 + Math.pow(10, ...)\<close>), or is
    \<^verbatim>\<open>3000 / tKelvin\<close>, which nothing guards; HOL's \<open>x / 0 = 0\<close> is not what JavaScript
    computes there, so that case is written out.

  \<^item> \<open>calculateResults_ieee\<close> reads a number as a value of the type \<open>number\<close> below,
    with \<^verbatim>\<open>NaN\<close>, \<^verbatim>\<open>Infinity\<close> and \<^verbatim>\<open>-Infinity\<close>, and the operators as the
    IEEE 754 ones: a result beyond the range of a double overflows to an infinity, a
    result too small underflows to 0, \<^verbatim>\<open>0 * Infinity\<close> and \<^verbatim>\<open>Infinity - Infinity\<close> are
    \<^verbatim>\<open>NaN\<close>, every comparison with \<^verbatim>\<open>NaN\<close> is false. It decides the properties of
    sign, range and order, which an overflow can break.
\<close>

subsection \<open>Data model (types.ts)\<close>

datatype ChlorineChemical = SODIUM_HYPOCHLORITE | CHLORINE_GAS

datatype TankType = PIPE | CIRCULAR | RECTANGULAR | SQUARE

datatype TurbidityLevel = LOW | MID | HIGH

text \<open>
  Every field of \<^verbatim>\<open>TankDimensions\<close> is optional (\<^verbatim>\<open>length?: number\<close>); a missing
  field is \<open>None\<close>. The field \<^verbatim>\<open>length\<close> is named \<open>length_dim\<close> here, since
  \<open>length\<close> is the list function of HOL.
\<close>

record TankDimensions =
  length_dim :: "real option"
  width :: "real option"
  diameter :: "real option"
  waterDepth :: "real option"

text \<open>
  The keys are the ones \<^verbatim>\<open>calculateResults\<close> destructures and the caller supplies
  (\<^verbatim>\<open>naOClConc\<close>, \<^verbatim>\<open>naOClDoseRate\<close>).
\<close>

record AppState =
  flowRate :: real
  chemical :: ChlorineChemical
  naOClConc :: real
  naOClDoseRate :: real
  gasDoseRate :: real
  tankType :: TankType
  dimensions :: TankDimensions
  isBaffled :: bool
  baffleFactor :: real
  pH :: real
  temperature :: real
  alkalinity :: real
  turbidity :: TurbidityLevel

text \<open>
  All thirteen fields of the result are numbers; the record is polymorphic in the type
  \<open>'n\<close> that stands for \<^verbatim>\<open>number\<close>.
\<close>

record 'n CalculationResults =
  chlorineDose :: 'n
  volume :: 'n
  effectiveVolume :: 'n
  retentionTime :: 'n
  t10 :: 'n
  ctDose :: 'n
  effectiveCt :: 'n
  postDosePh :: 'n
  hoClFraction :: 'n
  lrvBacteriaApplied :: 'n
  lrvBacteriaEffective :: 'n
  lrvVirusApplied :: 'n
  lrvVirusEffective :: 'n

subsection \<open>Constants (constants.ts)\<close>

definition KEEGAN_K_BACTERIA :: real where
  "KEEGAN_K_BACTERIA = 4.6"

definition KEEGAN_THETA :: real where
  "KEEGAN_THETA = 1.07"

fun TURBIDITY_SHIELDING_FACTORS :: "TurbidityLevel \<Rightarrow> real" where
  "TURBIDITY_SHIELDING_FACTORS LOW = 1.0"
| "TURBIDITY_SHIELDING_FACTORS MID = 0.8"
| "TURBIDITY_SHIELDING_FACTORS HIGH = 0.5"

section \<open>Exact arithmetic\<close>

subsection \<open>The virus lookup\<close>

definition lookupVirusLrv :: "real \<Rightarrow> real" where
  "lookupVirusLrv ct20 =
     (if ct20 \<le> 0 then 0
      else if ct20 \<le> 1.0 then 2.0 * ct20
      else if ct20 \<le> 2.0 then 2.0 + (ct20 - 1.0) * 1.0
      else if ct20 \<le> 3.0 then 3.0 + (ct20 - 2.0) * 1.0
      else 4.0 + (ct20 - 3.0) * 1.0)"

subsection \<open>calculateResults\<close>

text \<open>
  \<^verbatim>\<open>const { length = 0, ... } = dimensions\<close>: a missing dimension defaults to 0.
\<close>

definition dflt0 :: "real option \<Rightarrow> real" where
  "dflt0 v = (case v of None \<Rightarrow> 0 | Some x \<Rightarrow> x)"

text \<open>
  The body follows the source step by step; each \<^verbatim>\<open>const\<close> is a binding of the
  same name (primed where the name is also a field of the result, \<open>len\<close>, \<open>wid\<close>,
  \<open>dia\<close>, \<open>dep\<close> for the destructured dimensions). The four LRV variables start at 0
  and are assigned only inside \<^verbatim>\<open>if (turbidity !== TurbidityLevel.HIGH)\<close>.

  Step 5: when \<open>tKelvin = 0\<close> (the temperature \<open>-273.15\<close>), JavaScript's
  \<^verbatim>\<open>3000 / 0\<close> is \<^verbatim>\<open>Infinity\<close>, so \<^verbatim>\<open>pKa\<close> is \<^verbatim>\<open>Infinity\<close>,
  \<^verbatim>\<open>Math.pow(10, postDosePh - Infinity)\<close> is \<open>0\<close> and the fraction is \<^verbatim>\<open>1 / (1 + 0)\<close>.
\<close>

definition calculateResults :: "AppState \<Rightarrow> real CalculationResults" where
  "calculateResults state =
    (let dose_mgL =
           (if chemical state = SODIUM_HYPOCHLORITE then
              (let massRate_kgh = (naOClDoseRate state * naOClConc state) / 100
               in if flowRate state > 0 then (massRate_kgh * 24 * 1000) / flowRate state else 0)
            else
              (if flowRate state > 0 then (gasDoseRate state * 24 * 1000) / flowRate state else 0));
         len = dflt0 (length_dim (dimensions state));
         wid = dflt0 (width (dimensions state));
         dia = dflt0 (diameter (dimensions state));
         dep = dflt0 (waterDepth (dimensions state));
         vol =
           (case tankType state of
              PIPE \<Rightarrow> pi * (max 0 dia / 2) ^ 2 * max 0 len
            | CIRCULAR \<Rightarrow> pi * (max 0 dia / 2) ^ 2 * max 0 dep
            | RECTANGULAR \<Rightarrow> max 0 len * max 0 wid * max 0 dep
            | SQUARE \<Rightarrow> max 0 len * max 0 wid * max 0 dep);
         q_m3h = flowRate state / 24;
         t_min = (if vol > 0 \<and> q_m3h > 0 then (vol / q_m3h) * 60 else 0);
         bf = (if isBaffled state then max 0 (baffleFactor state) else 0.1);
         t10' = t_min * bf;
         effectiveVol = vol * bf;
         bufferFactor = max (alkalinity state) 10;
         postDosePh0 =
           (if chemical state = CHLORINE_GAS then pH state - (2.5 * dose_mgL / bufferFactor)
            else pH state + (1.8 * dose_mgL / bufferFactor));
         postDosePh' = max 2 (min 12 postDosePh0);
         tKelvin = temperature state + 273.15;
         pKa = (3000 / tKelvin) - 10.0686 + (0.0253 * tKelvin);
         hoClFraction' =
           (if tKelvin = 0 then 1 / (1 + 0) else 1 / (1 + 10 powr (postDosePh' - pKa)));
         ctDose' = max 0 (dose_mgL * t10');
         effectiveCt' = max 0 ((dose_mgL * hoClFraction') * t10');
         tempCorrection = KEEGAN_THETA powr (temperature state - 20);
         turbidityFactor = TURBIDITY_SHIELDING_FACTORS (turbidity state);
         (lrvBacteriaApplied', lrvBacteriaEffective', lrvVirusApplied', lrvVirusEffective') =
           (if turbidity state \<noteq> HIGH then
              (let lrvBacteriaAppliedRaw =
                     (KEEGAN_K_BACTERIA * tempCorrection * turbidityFactor) * ctDose';
                   lrvBacteriaEffectiveRaw =
                     (KEEGAN_K_BACTERIA * tempCorrection * turbidityFactor) * effectiveCt';
                   ctDose20 = ctDose' * tempCorrection;
                   ctEffective20 = effectiveCt' * tempCorrection;
                   lrvVirusAppliedRaw = lookupVirusLrv ctDose20;
                   lrvVirusEffectiveRaw = lookupVirusLrv ctEffective20;
                   MAX_LRV = 4.0
               in (max 0 (min MAX_LRV lrvBacteriaAppliedRaw),
                   max 0 (min MAX_LRV lrvBacteriaEffectiveRaw),
                   max 0 (min MAX_LRV lrvVirusAppliedRaw),
                   max 0 (min MAX_LRV lrvVirusEffectiveRaw)))
            else (0, 0, 0, 0))
     in \<lparr> chlorineDose = dose_mgL,
          volume = vol,
          effectiveVolume = effectiveVol,
          retentionTime = t_min,
          t10 = t10',
          ctDose = ctDose',
          effectiveCt = effectiveCt',
          postDosePh = postDosePh',
          hoClFraction = hoClFraction',
          lrvBacteriaApplied = lrvBacteriaApplied',
          lrvBacteriaEffective = lrvBacteriaEffective',
          lrvVirusApplied = lrvVirusApplied',
          lrvVirusEffective = lrvVirusEffective' \<rparr>)"

text \<open>Scenario A of the specification: the initial state of the caller.\<close>

definition scenarioA :: AppState where
  "scenarioA =
     \<lparr> flowRate = 10000, chemical = SODIUM_HYPOCHLORITE, naOClConc = 12.5, naOClDoseRate = 5,
       gasDoseRate = 2, tankType = RECTANGULAR,
       dimensions = \<lparr> length_dim = Some 20, width = Some 5, diameter = None, waterDepth = Some 3 \<rparr>,
       isBaffled = True, baffleFactor = 0.5, pH = 7.5, temperature = 20, alkalinity = 100,
       turbidity = LOW \<rparr>"


subsection \<open>The steps of calculateResults, one by one\<close>

text \<open>
  The local values of \<^const>\<open>calculateResults\<close> as functions of the state, for the
  proofs: \<open>calculateResults_stages\<close> below shows that the result record is made of
  exactly these. A local whose name is also a field of the result carries the suffix
  \<open>_local\<close>; \<open>lrvBacteria\<close> and \<open>lrvVirus\<close> are steps 7 and 8 as functions of the Ct
  value they are applied to.
\<close>

definition dose_mgL :: "AppState \<Rightarrow> real" where
  "dose_mgL state =
     (if chemical state = SODIUM_HYPOCHLORITE then
        (if flowRate state > 0
         then (((naOClDoseRate state * naOClConc state) / 100) * 24 * 1000) / flowRate state else 0)
      else
        (if flowRate state > 0 then (gasDoseRate state * 24 * 1000) / flowRate state else 0))"

definition vol :: "AppState \<Rightarrow> real" where
  "vol state =
     (case tankType state of
        PIPE \<Rightarrow> pi * (max 0 (dflt0 (diameter (dimensions state))) / 2) ^ 2
                  * max 0 (dflt0 (length_dim (dimensions state)))
      | CIRCULAR \<Rightarrow> pi * (max 0 (dflt0 (diameter (dimensions state))) / 2) ^ 2
                  * max 0 (dflt0 (waterDepth (dimensions state)))
      | RECTANGULAR \<Rightarrow> max 0 (dflt0 (length_dim (dimensions state)))
                  * max 0 (dflt0 (width (dimensions state)))
                  * max 0 (dflt0 (waterDepth (dimensions state)))
      | SQUARE \<Rightarrow> max 0 (dflt0 (length_dim (dimensions state)))
                  * max 0 (dflt0 (width (dimensions state)))
                  * max 0 (dflt0 (waterDepth (dimensions state))))"

definition t_min :: "AppState \<Rightarrow> real" where
  "t_min state =
     (if vol state > 0 \<and> flowRate state / 24 > 0 then (vol state / (flowRate state / 24)) * 60 else 0)"

definition bf :: "AppState \<Rightarrow> real" where
  "bf state = (if isBaffled state then max 0 (baffleFactor state) else 0.1)"

definition postDosePh_local :: "AppState \<Rightarrow> real" where
  "postDosePh_local state =
     max 2 (min 12
       (if chemical state = CHLORINE_GAS
        then pH state - (2.5 * dose_mgL state / max (alkalinity state) 10)
        else pH state + (1.8 * dose_mgL state / max (alkalinity state) 10)))"

definition hoClFraction_local :: "AppState \<Rightarrow> real" where
  "hoClFraction_local state =
     (if temperature state + 273.15 = 0 then 1 / (1 + 0)
      else 1 / (1 + 10 powr (postDosePh_local state
             - ((3000 / (temperature state + 273.15)) - 10.0686
                + (0.0253 * (temperature state + 273.15))))))"

definition ctDose_local :: "AppState \<Rightarrow> real" where
  "ctDose_local state = max 0 (dose_mgL state * (t_min state * bf state))"

definition effectiveCt_local :: "AppState \<Rightarrow> real" where
  "effectiveCt_local state =
     max 0 ((dose_mgL state * hoClFraction_local state) * (t_min state * bf state))"

definition tempCorrection :: "AppState \<Rightarrow> real" where
  "tempCorrection state = KEEGAN_THETA powr (temperature state - 20)"

definition lrvBacteria :: "AppState \<Rightarrow> real \<Rightarrow> real" where
  "lrvBacteria state ct =
     (if turbidity state \<noteq> HIGH then
        max 0 (min 4.0 ((KEEGAN_K_BACTERIA * tempCorrection state
                          * TURBIDITY_SHIELDING_FACTORS (turbidity state)) * ct))
      else 0)"

definition lrvVirus :: "AppState \<Rightarrow> real \<Rightarrow> real" where
  "lrvVirus state ct =
     (if turbidity state \<noteq> HIGH then
        max 0 (min 4.0 (lookupVirusLrv (ct * tempCorrection state)))
      else 0)"

section \<open>IEEE 754 arithmetic\<close>

subsection \<open>Numbers\<close>

text \<open>
  A number is \<^verbatim>\<open>NaN\<close>, one of the two infinities, or finite. The two zeros are one:
  the sign of a zero shows only when it divides, and no divisor of the source can be
  \<open>-0\<close> (\<^verbatim>\<open>flowRate\<close> and \<^verbatim>\<open>q_m3h\<close> divide only when positive, \<^verbatim>\<open>bufferFactor\<close>
  is at least 10, \<^verbatim>\<open>1 + Math.pow(10, ...)\<close> at least 1, and a sum such as
  \<^verbatim>\<open>temperature + 273.15\<close> is \<open>-0\<close> only when both summands are).
\<close>

datatype number = NaN | NInf | Fin real | PInf

text \<open>
  The result of an operation on finite numbers is the exact result, passed through
  \<open>fl\<close>. At \<open>2^1024 - 2^970\<close>, half a unit in the last place above the largest double,
  round-to-nearest gives an infinity; at \<open>2^-1075\<close>, half the smallest subnormal, and
  below, it gives 0. In between the exact result is kept: the rounding to 53 bits is
  not modelled, so the properties proved below are ones that rounding to nearest, which
  is monotone and maps 0 and 1 to themselves, preserves. \<open>MAX_VALUE\<close> is
  \<^verbatim>\<open>Number.MAX_VALUE\<close>, the largest double.
\<close>

definition OVERFLOW :: real where
  "OVERFLOW = 2 ^ 1024 - 2 ^ 970"

definition UNDERFLOW :: real where
  "UNDERFLOW = 1 / 2 ^ 1075"


definition fl :: "real \<Rightarrow> number" where
  "fl r =
     (if OVERFLOW \<le> r then PInf
      else if r \<le> - OVERFLOW then NInf
      else if \<bar>r\<bar> \<le> UNDERFLOW then Fin 0
      else Fin r)"

text \<open>
  The operators \<^verbatim>\<open><\<close>, \<^verbatim>\<open><=\<close>, unary and binary \<^verbatim>\<open>-\<close>, \<^verbatim>\<open>+\<close>, \<^verbatim>\<open>*\<close>,
  \<^verbatim>\<open>/\<close>, and \<^verbatim>\<open>Math.max\<close>, \<^verbatim>\<open>Math.min\<close>; \<^verbatim>\<open>a > b\<close> is \<open>num_lt b a\<close>.
\<close>

fun num_lt :: "number \<Rightarrow> number \<Rightarrow> bool" where
  "num_lt NaN _ = False"
| "num_lt _ NaN = False"
| "num_lt (Fin a) (Fin b) = (a < b)"
| "num_lt _ NInf = False"
| "num_lt PInf _ = False"
| "num_lt NInf _ = True"
| "num_lt _ PInf = True"

fun num_le :: "number \<Rightarrow> number \<Rightarrow> bool" where
  "num_le NaN _ = False"
| "num_le _ NaN = False"
| "num_le (Fin a) (Fin b) = (a \<le> b)"
| "num_le NInf _ = True"
| "num_le _ PInf = True"
| "num_le _ NInf = False"
| "num_le PInf _ = False"

fun num_neg :: "number \<Rightarrow> number" where
  "num_neg NaN = NaN"
| "num_neg NInf = PInf"
| "num_neg (Fin a) = Fin (- a)"
| "num_neg PInf = NInf"

fun num_add :: "number \<Rightarrow> number \<Rightarrow> number" where
  "num_add NaN _ = NaN"
| "num_add _ NaN = NaN"
| "num_add (Fin a) (Fin b) = fl (a + b)"
| "num_add PInf NInf = NaN"
| "num_add NInf PInf = NaN"
| "num_add PInf _ = PInf"
| "num_add _ PInf = PInf"
| "num_add NInf _ = NInf"
| "num_add _ NInf = NInf"

definition num_sub :: "number \<Rightarrow> number \<Rightarrow> number" where
  "num_sub a b = num_add a (num_neg b)"

fun num_mul :: "number \<Rightarrow> number \<Rightarrow> number" where
  "num_mul NaN _ = NaN"
| "num_mul _ NaN = NaN"
| "num_mul (Fin a) (Fin b) = fl (a * b)"
| "num_mul (Fin a) PInf = (if a = 0 then NaN else if 0 < a then PInf else NInf)"
| "num_mul (Fin a) NInf = (if a = 0 then NaN else if 0 < a then NInf else PInf)"
| "num_mul PInf (Fin b) = (if b = 0 then NaN else if 0 < b then PInf else NInf)"
| "num_mul NInf (Fin b) = (if b = 0 then NaN else if 0 < b then NInf else PInf)"
| "num_mul PInf PInf = PInf"
| "num_mul NInf NInf = PInf"
| "num_mul PInf NInf = NInf"
| "num_mul NInf PInf = NInf"

fun num_div :: "number \<Rightarrow> number \<Rightarrow> number" where
  "num_div NaN _ = NaN"
| "num_div _ NaN = NaN"
| "num_div (Fin a) (Fin b) =
     (if b = 0 then (if a = 0 then NaN else if 0 < a then PInf else NInf) else fl (a / b))"
| "num_div (Fin a) _ = Fin 0"
| "num_div PInf (Fin b) = (if 0 \<le> b then PInf else NInf)"
| "num_div NInf (Fin b) = (if 0 \<le> b then NInf else PInf)"
| "num_div _ _ = NaN"

fun Math_max :: "number \<Rightarrow> number \<Rightarrow> number" where
  "Math_max NaN _ = NaN"
| "Math_max _ NaN = NaN"
| "Math_max a b = (if num_le a b then b else a)"

fun Math_min :: "number \<Rightarrow> number \<Rightarrow> number" where
  "Math_min NaN _ = NaN"
| "Math_min _ NaN = NaN"
| "Math_min a b = (if num_le a b then a else b)"

text \<open>
  \<^verbatim>\<open>Math.pow\<close>, case by case as ECMAScript's \<^verbatim>\<open>Number::exponentiate\<close> lists them; in
  the last case the language asks for an approximation of the exact power.
\<close>

definition is_integer :: "real \<Rightarrow> bool" where
  "is_integer e = (e = of_int \<lfloor>e\<rfloor>)"

definition Math_pow :: "number \<Rightarrow> number \<Rightarrow> number" where
  "Math_pow base exponent =
     (case exponent of
        NaN \<Rightarrow> NaN
      | Fin e \<Rightarrow>
          if e = 0 then Fin 1
          else (case base of
                  NaN \<Rightarrow> NaN
                | PInf \<Rightarrow> if 0 < e then PInf else Fin 0
                | NInf \<Rightarrow> if 0 < e then (if is_integer e \<and> odd \<lfloor>e\<rfloor> then NInf else PInf) else Fin 0
                | Fin b \<Rightarrow>
                    if b = 0 then (if 0 < e then Fin 0 else PInf)
                    else if b < 0 then (if is_integer e then fl (b powi \<lfloor>e\<rfloor>) else NaN)
                    else fl (b powr e))
      | PInf \<Rightarrow>
          (case base of
             NaN \<Rightarrow> NaN
           | Fin b \<Rightarrow> if 1 < \<bar>b\<bar> then PInf else if \<bar>b\<bar> = 1 then NaN else Fin 0
           | _ \<Rightarrow> PInf)
      | NInf \<Rightarrow>
          (case base of
             NaN \<Rightarrow> NaN
           | Fin b \<Rightarrow> if 1 < \<bar>b\<bar> then Fin 0 else if \<bar>b\<bar> = 1 then NaN else PInf
           | _ \<Rightarrow> Fin 0))"

subsection \<open>The virus lookup\<close>

definition lookupVirusLrv_ieee :: "number \<Rightarrow> number" where
  "lookupVirusLrv_ieee ct20 =
     (if num_le ct20 (Fin 0) then Fin 0
      else if num_le ct20 (Fin 1.0) then num_mul (Fin 2.0) ct20
      else if num_le ct20 (Fin 2.0)
        then num_add (Fin 2.0) (num_mul (num_sub ct20 (Fin 1.0)) (Fin 1.0))
      else if num_le ct20 (Fin 3.0)
        then num_add (Fin 3.0) (num_mul (num_sub ct20 (Fin 2.0)) (Fin 1.0))
      else num_add (Fin 4.0) (num_mul (num_sub ct20 (Fin 3.0)) (Fin 1.0)))"

subsection \<open>calculateResults\<close>

text \<open>
  The same body as \<^const>\<open>calculateResults\<close>, operator by operator. A field \<open>x\<close> of the
  state is the finite number \<open>Fin x\<close>. Nothing is written out for \<^verbatim>\<open>3000 / tKelvin\<close>
  here: \<open>num_div\<close> gives the infinity.
\<close>

definition calculateResults_ieee :: "AppState \<Rightarrow> number CalculationResults" where
  "calculateResults_ieee state =
    (let dose_mgL =
           (if chemical state = SODIUM_HYPOCHLORITE then
              (let massRate_kgh =
                     num_div (num_mul (Fin (naOClDoseRate state)) (Fin (naOClConc state))) (Fin 100)
               in if num_lt (Fin 0) (Fin (flowRate state))
                  then num_div (num_mul (num_mul massRate_kgh (Fin 24)) (Fin 1000))
                         (Fin (flowRate state))
                  else Fin 0)
            else
              (if num_lt (Fin 0) (Fin (flowRate state))
               then num_div (num_mul (num_mul (Fin (gasDoseRate state)) (Fin 24)) (Fin 1000))
                      (Fin (flowRate state))
               else Fin 0));
         len = Fin (dflt0 (length_dim (dimensions state)));
         wid = Fin (dflt0 (width (dimensions state)));
         dia = Fin (dflt0 (diameter (dimensions state)));
         dep = Fin (dflt0 (waterDepth (dimensions state)));
         vol =
           (case tankType state of
              PIPE \<Rightarrow>
                num_mul (num_mul (Fin pi) (Math_pow (num_div (Math_max (Fin 0) dia) (Fin 2)) (Fin 2)))
                  (Math_max (Fin 0) len)
            | CIRCULAR \<Rightarrow>
                num_mul (num_mul (Fin pi) (Math_pow (num_div (Math_max (Fin 0) dia) (Fin 2)) (Fin 2)))
                  (Math_max (Fin 0) dep)
            | RECTANGULAR \<Rightarrow>
                num_mul (num_mul (Math_max (Fin 0) len) (Math_max (Fin 0) wid)) (Math_max (Fin 0) dep)
            | SQUARE \<Rightarrow>
                num_mul (num_mul (Math_max (Fin 0) len) (Math_max (Fin 0) wid)) (Math_max (Fin 0) dep));
         q_m3h = num_div (Fin (flowRate state)) (Fin 24);
         t_min =
           (if num_lt (Fin 0) vol \<and> num_lt (Fin 0) q_m3h
            then num_mul (num_div vol q_m3h) (Fin 60) else Fin 0);
         bf = (if isBaffled state then Math_max (Fin 0) (Fin (baffleFactor state)) else Fin 0.1);
         t10' = num_mul t_min bf;
         effectiveVol = num_mul vol bf;
         bufferFactor = Math_max (Fin (alkalinity state)) (Fin 10);
         postDosePh0 =
           (if chemical state = CHLORINE_GAS
            then num_sub (Fin (pH state)) (num_div (num_mul (Fin 2.5) dose_mgL) bufferFactor)
            else num_add (Fin (pH state)) (num_div (num_mul (Fin 1.8) dose_mgL) bufferFactor));
         postDosePh' = Math_max (Fin 2) (Math_min (Fin 12) postDosePh0);
         tKelvin = num_add (Fin (temperature state)) (Fin 273.15);
         pKa = num_add (num_sub (num_div (Fin 3000) tKelvin) (Fin 10.0686))
                 (num_mul (Fin 0.0253) tKelvin);
         hoClFraction' =
           num_div (Fin 1) (num_add (Fin 1) (Math_pow (Fin 10) (num_sub postDosePh' pKa)));
         ctDose' = Math_max (Fin 0) (num_mul dose_mgL t10');
         effectiveCt' = Math_max (Fin 0) (num_mul (num_mul dose_mgL hoClFraction') t10');
         tempCorrection = Math_pow (Fin KEEGAN_THETA) (num_sub (Fin (temperature state)) (Fin 20));
         turbidityFactor = Fin (TURBIDITY_SHIELDING_FACTORS (turbidity state));
         (lrvBacteriaApplied', lrvBacteriaEffective', lrvVirusApplied', lrvVirusEffective') =
           (if turbidity state \<noteq> HIGH then
              (let lrvBacteriaAppliedRaw =
                     num_mul (num_mul (num_mul (Fin KEEGAN_K_BACTERIA) tempCorrection)
                                turbidityFactor) ctDose';
                   lrvBacteriaEffectiveRaw =
                     num_mul (num_mul (num_mul (Fin KEEGAN_K_BACTERIA) tempCorrection)
                                turbidityFactor) effectiveCt';
                   ctDose20 = num_mul ctDose' tempCorrection;
                   ctEffective20 = num_mul effectiveCt' tempCorrection;
                   lrvVirusAppliedRaw = lookupVirusLrv_ieee ctDose20;
                   lrvVirusEffectiveRaw = lookupVirusLrv_ieee ctEffective20;
                   MAX_LRV = Fin 4.0
               in (Math_max (Fin 0) (Math_min MAX_LRV lrvBacteriaAppliedRaw),
                   Math_max (Fin 0) (Math_min MAX_LRV lrvBacteriaEffectiveRaw),
                   Math_max (Fin 0) (Math_min MAX_LRV lrvVirusAppliedRaw),
                   Math_max (Fin 0) (Math_min MAX_LRV lrvVirusEffectiveRaw)))
            else (Fin 0, Fin 0, Fin 0, Fin 0))
     in \<lparr> chlorineDose = dose_mgL,
          volume = vol,
          effectiveVolume = effectiveVol,
          retentionTime = t_min,
          t10 = t10',
          ctDose = ctDose',
          effectiveCt = effectiveCt',
          postDosePh = postDosePh',
          hoClFraction = hoClFraction',
          lrvBacteriaApplied = lrvBacteriaApplied',
          lrvBacteriaEffective = lrvBacteriaEffective',
          lrvVirusApplied = lrvVirusApplied',
          lrvVirusEffective = lrvVirusEffective' \<rparr>)"



subsection \<open>The steps of calculateResults, one by one\<close>

text \<open>
  The local values of \<^const>\<open>calculateResults_ieee\<close> as functions of the state;
  \<open>calculateResults_ieee_stages\<close> below shows that the result record is made of exactly
  these. \<open>clamp0\<close> is \<^verbatim>\<open>Math.max(0, x)\<close> on a dimension, \<open>kBacteria_ieee\<close> the product
  \<^verbatim>\<open>KEEGAN_K_BACTERIA * tempCorrection * turbidityFactor\<close>, \<open>piece v k\<close> the branch
  \<^verbatim>\<open>v + (ct20 - k) * 1.0\<close> of the lookup.
\<close>

definition dose_mgL_ieee :: "AppState \<Rightarrow> number" where
  "dose_mgL_ieee state =
     (if chemical state = SODIUM_HYPOCHLORITE then
        (if num_lt (Fin 0) (Fin (flowRate state))
         then num_div
                (num_mul
                   (num_mul
                      (num_div (num_mul (Fin (naOClDoseRate state)) (Fin (naOClConc state))) (Fin 100))
                      (Fin 24))
                   (Fin 1000))
                (Fin (flowRate state))
         else Fin 0)
      else
        (if num_lt (Fin 0) (Fin (flowRate state))
         then num_div (num_mul (num_mul (Fin (gasDoseRate state)) (Fin 24)) (Fin 1000))
                (Fin (flowRate state))
         else Fin 0))"

definition clamp0 :: "real option \<Rightarrow> number" where
  "clamp0 v = Math_max (Fin 0) (Fin (dflt0 v))"

definition vol_ieee :: "AppState \<Rightarrow> number" where
  "vol_ieee state =
     (case tankType state of
        PIPE \<Rightarrow>
          num_mul (num_mul (Fin pi)
                     (Math_pow (num_div (clamp0 (diameter (dimensions state))) (Fin 2)) (Fin 2)))
            (clamp0 (length_dim (dimensions state)))
      | CIRCULAR \<Rightarrow>
          num_mul (num_mul (Fin pi)
                     (Math_pow (num_div (clamp0 (diameter (dimensions state))) (Fin 2)) (Fin 2)))
            (clamp0 (waterDepth (dimensions state)))
      | RECTANGULAR \<Rightarrow>
          num_mul (num_mul (clamp0 (length_dim (dimensions state))) (clamp0 (width (dimensions state))))
            (clamp0 (waterDepth (dimensions state)))
      | SQUARE \<Rightarrow>
          num_mul (num_mul (clamp0 (length_dim (dimensions state))) (clamp0 (width (dimensions state))))
            (clamp0 (waterDepth (dimensions state))))"

definition q_m3h_ieee :: "AppState \<Rightarrow> number" where
  "q_m3h_ieee state = num_div (Fin (flowRate state)) (Fin 24)"

definition t_min_ieee :: "AppState \<Rightarrow> number" where
  "t_min_ieee state =
     (if num_lt (Fin 0) (vol_ieee state) \<and> num_lt (Fin 0) (q_m3h_ieee state)
      then num_mul (num_div (vol_ieee state) (q_m3h_ieee state)) (Fin 60) else Fin 0)"

definition bf_ieee :: "AppState \<Rightarrow> number" where
  "bf_ieee state =
     (if isBaffled state then Math_max (Fin 0) (Fin (baffleFactor state)) else Fin 0.1)"

definition t10_ieee :: "AppState \<Rightarrow> number" where
  "t10_ieee state = num_mul (t_min_ieee state) (bf_ieee state)"

definition postDosePh_ieee :: "AppState \<Rightarrow> number" where
  "postDosePh_ieee state =
     Math_max (Fin 2) (Math_min (Fin 12)
       (if chemical state = CHLORINE_GAS
        then num_sub (Fin (pH state))
               (num_div (num_mul (Fin 2.5) (dose_mgL_ieee state))
                  (Math_max (Fin (alkalinity state)) (Fin 10)))
        else num_add (Fin (pH state))
               (num_div (num_mul (Fin 1.8) (dose_mgL_ieee state))
                  (Math_max (Fin (alkalinity state)) (Fin 10)))))"

definition tKelvin_ieee :: "AppState \<Rightarrow> number" where
  "tKelvin_ieee state = num_add (Fin (temperature state)) (Fin 273.15)"

definition pKa_ieee :: "AppState \<Rightarrow> number" where
  "pKa_ieee state =
     num_add (num_sub (num_div (Fin 3000) (tKelvin_ieee state)) (Fin 10.0686))
       (num_mul (Fin 0.0253) (tKelvin_ieee state))"

definition hoClFraction_ieee :: "AppState \<Rightarrow> number" where
  "hoClFraction_ieee state =
     num_div (Fin 1)
       (num_add (Fin 1) (Math_pow (Fin 10) (num_sub (postDosePh_ieee state) (pKa_ieee state))))"

definition ctDose_ieee :: "AppState \<Rightarrow> number" where
  "ctDose_ieee state = Math_max (Fin 0) (num_mul (dose_mgL_ieee state) (t10_ieee state))"

definition effectiveCt_ieee :: "AppState \<Rightarrow> number" where
  "effectiveCt_ieee state =
     Math_max (Fin 0)
       (num_mul (num_mul (dose_mgL_ieee state) (hoClFraction_ieee state)) (t10_ieee state))"

definition tempCorrection_ieee :: "AppState \<Rightarrow> number" where
  "tempCorrection_ieee state =
     Math_pow (Fin KEEGAN_THETA) (num_sub (Fin (temperature state)) (Fin 20))"

definition kBacteria_ieee :: "AppState \<Rightarrow> number" where
  "kBacteria_ieee state =
     num_mul (num_mul (Fin KEEGAN_K_BACTERIA) (tempCorrection_ieee state))
       (Fin (TURBIDITY_SHIELDING_FACTORS (turbidity state)))"

definition lrvBacteria_ieee :: "AppState \<Rightarrow> number \<Rightarrow> number" where
  "lrvBacteria_ieee state ct =
     (if turbidity state \<noteq> HIGH
      then Math_max (Fin 0) (Math_min (Fin 4.0) (num_mul (kBacteria_ieee state) ct))
      else Fin 0)"

definition lrvVirus_ieee :: "AppState \<Rightarrow> number \<Rightarrow> number" where
  "lrvVirus_ieee state ct =
     (if turbidity state \<noteq> HIGH
      then Math_max (Fin 0) (Math_min (Fin 4.0)
             (lookupVirusLrv_ieee (num_mul ct (tempCorrection_ieee state))))
      else Fin 0)"



section \<open>Properties of the exact model\<close>

subsection \<open>The result record, field by field\<close>

lemma calculateResults_stages:
  "calculateResults state =
     \<lparr> chlorineDose = dose_mgL state,
       volume = vol state,
       effectiveVolume = vol state * bf state,
       retentionTime = t_min state,
       t10 = t_min state * bf state,
       ctDose = ctDose_local state,
       effectiveCt = effectiveCt_local state,
       postDosePh = postDosePh_local state,
       hoClFraction = hoClFraction_local state,
       lrvBacteriaApplied = lrvBacteria state (ctDose_local state),
       lrvBacteriaEffective = lrvBacteria state (effectiveCt_local state),
       lrvVirusApplied = lrvVirus state (ctDose_local state),
       lrvVirusEffective = lrvVirus state (effectiveCt_local state) \<rparr>"
  unfolding calculateResults_def dose_mgL_def vol_def t_min_def bf_def postDosePh_local_def
    hoClFraction_local_def ctDose_local_def effectiveCt_local_def tempCorrection_def
    lrvBacteria_def lrvVirus_def Let_def
  by (cases "turbidity state = HIGH") (simp_all only: if_True if_False not_True_eq_False not_False_eq_True split_conv refl)

subsection \<open>Dose, retention time and baffle factor\<close>

lemma dose_mgL_zero_flow: "flowRate s \<le> 0 \<Longrightarrow> dose_mgL s = 0"
  by (simp add: dose_mgL_def)

lemma t_min_zero_flow: "flowRate s \<le> 0 \<Longrightarrow> t_min s = 0"
  by (simp add: t_min_def)


subsection \<open>Post-dose pH\<close>


subsection \<open>The virus lookup\<close>

text \<open>The four branches of the lookup are one expression in \<open>max\<close> and \<open>min\<close>.\<close>

lemma lookupVirusLrv_max_min: "lookupVirusLrv x = max 0 (min (2 * x) (x + 1))"
  by (simp add: lookupVirusLrv_def max_def min_def)

lemma lookupVirusLrv_mono: "x \<le> y \<Longrightarrow> lookupVirusLrv x \<le> lookupVirusLrv y"
  unfolding lookupVirusLrv_max_min by (intro max.mono min.mono) simp_all

lemma lookupVirusLrv_continuous: "continuous_on A lookupVirusLrv"
proof -
  have "continuous_on A (\<lambda>x::real. max 0 (min (2 * x) (x + 1)))"
    by (intro continuous_intros)
  then show ?thesis by (simp add: lookupVirusLrv_max_min [abs_def])
qed


subsection \<open>Scenario A\<close>

lemma scenarioA_fields:
  "dose_mgL scenarioA = 3/2" "vol scenarioA = 300" "t_min scenarioA = 216/5" "bf scenarioA = 1/2"
  by (simp_all add: dose_mgL_def vol_def t_min_def bf_def scenarioA_def dflt0_def)

section \<open>Properties of the IEEE model\<close>

subsection \<open>The result record, field by field\<close>

lemma calculateResults_ieee_stages:
  "calculateResults_ieee state =
     \<lparr> chlorineDose = dose_mgL_ieee state,
       volume = vol_ieee state,
       effectiveVolume = num_mul (vol_ieee state) (bf_ieee state),
       retentionTime = t_min_ieee state,
       t10 = t10_ieee state,
       ctDose = ctDose_ieee state,
       effectiveCt = effectiveCt_ieee state,
       postDosePh = postDosePh_ieee state,
       hoClFraction = hoClFraction_ieee state,
       lrvBacteriaApplied = lrvBacteria_ieee state (ctDose_ieee state),
       lrvBacteriaEffective = lrvBacteria_ieee state (effectiveCt_ieee state),
       lrvVirusApplied = lrvVirus_ieee state (ctDose_ieee state),
       lrvVirusEffective = lrvVirus_ieee state (effectiveCt_ieee state) \<rparr>"
  unfolding calculateResults_ieee_def dose_mgL_ieee_def vol_ieee_def clamp0_def q_m3h_ieee_def
    t_min_ieee_def bf_ieee_def t10_ieee_def postDosePh_ieee_def tKelvin_ieee_def pKa_ieee_def
    hoClFraction_ieee_def ctDose_ieee_def effectiveCt_ieee_def tempCorrection_ieee_def
    kBacteria_ieee_def lrvBacteria_ieee_def lrvVirus_ieee_def Let_def
  by (cases "turbidity state = HIGH")
    (simp_all only: if_True if_False not_True_eq_False not_False_eq_True split_conv refl)

subsection \<open>The range of a double\<close>

lemma OVERFLOW_big: "10 ^ 300 < OVERFLOW"
  by (simp add: OVERFLOW_def)

lemma OVERFLOW_lt: "OVERFLOW < 10 ^ 309"
  by (simp add: OVERFLOW_def)

lemma UNDERFLOW_pos: "0 < UNDERFLOW"
  by (simp add: UNDERFLOW_def)

lemma UNDERFLOW_small: "UNDERFLOW < 1 / 10 ^ 300"
  by (simp add: UNDERFLOW_def field_simps)



lemma OVERFLOW_gt: "10 ^ 6 < OVERFLOW"
  using OVERFLOW_big by (rule order.strict_trans [rotated]) simp

lemma UNDERFLOW_lt: "UNDERFLOW < 1 / 10 ^ 6"
  using UNDERFLOW_small by (rule order.strict_trans) (simp add: field_simps)

lemmas range_facts = OVERFLOW_gt UNDERFLOW_lt UNDERFLOW_pos

lemma fl_not_NaN [simp]: "fl r \<noteq> NaN"
  by (simp add: fl_def)

lemma fl_0 [simp]: "fl 0 = Fin 0"
  using range_facts by (simp add: fl_def)

lemma fl_exact: "UNDERFLOW < \<bar>r\<bar> \<Longrightarrow> \<bar>r\<bar> < OVERFLOW \<Longrightarrow> fl r = Fin r"
  by (auto simp: fl_def)

lemma fl_exact': "1 / 10 ^ 6 \<le> \<bar>r\<bar> \<Longrightarrow> \<bar>r\<bar> \<le> 10 ^ 6 \<Longrightarrow> fl r = Fin r"
  using range_facts by (intro fl_exact) linarith+

lemma fl_overflow: "OVERFLOW \<le> r \<Longrightarrow> fl r = PInf"
  by (simp add: fl_def)

lemma fl_nonneg: "0 \<le> r \<Longrightarrow> num_le (Fin 0) (fl r)"
  by (simp add: fl_def)


lemma fl_bounds [simp]: "num_le NInf (fl r)" "num_le (fl r) PInf"
  by (simp_all add: fl_def)

lemma fl_cases:
  obtains (pinf) "fl r = PInf" "OVERFLOW \<le> r"
  | (ninf) "fl r = NInf" "r \<le> - OVERFLOW"
  | (zero) "fl r = Fin 0" "\<bar>r\<bar> \<le> UNDERFLOW"
  | (fin) "fl r = Fin r" "UNDERFLOW < \<bar>r\<bar>" "\<bar>r\<bar> < OVERFLOW"
proof (cases "OVERFLOW \<le> r")
  case True
  then show ?thesis using pinf by (simp add: fl_def)
next
  case F1: False
  show ?thesis
  proof (cases "r \<le> - OVERFLOW")
    case True
    then show ?thesis using ninf F1 by (simp add: fl_def)
  next
    case F2: False
    show ?thesis
    proof (cases "\<bar>r\<bar> \<le> UNDERFLOW")
      case True
      then show ?thesis using zero F1 F2 by (simp add: fl_def)
    next
      case False
      moreover have "\<bar>r\<bar> < OVERFLOW" using F1 F2 by linarith
      ultimately show ?thesis using fin F1 F2 by (simp add: fl_def)
    qed
  qed
qed

lemma fl_Fin_ex: "\<bar>x\<bar> < OVERFLOW \<Longrightarrow> \<exists>b. fl x = Fin b"
  by (cases x rule: fl_cases) auto

lemma fl_unit_interval:
  assumes "0 \<le> x" "x \<le> 1"
  shows "num_le (Fin 0) (fl x) \<and> num_le (fl x) (Fin 1)"
  using assms range_facts by (cases x rule: fl_cases) auto

subsection \<open>Order\<close>

lemma num_le_refl: "a \<noteq> NaN \<Longrightarrow> num_le a a"
  by (cases a) simp_all



lemma num_le_total: "a \<noteq> NaN \<Longrightarrow> b \<noteq> NaN \<Longrightarrow> num_le a b \<or> num_le b a"
  by (cases a; cases b) auto

lemma num_lt_le: "num_lt a b \<Longrightarrow> num_le a b"
  by (cases a; cases b) simp_all




lemma nonneg_cases:
  assumes "num_le (Fin 0) n"
  obtains (fin) r where "n = Fin r" "0 \<le> r" | (pinf) "n = PInf"
  using assms by (cases n) simp_all


subsection \<open>Sign and NaN through the operators\<close>



lemma nonneg_max0: "a \<noteq> NaN \<Longrightarrow> num_le (Fin 0) (Math_max (Fin 0) a)"
  by (cases a) auto





lemma not_NaN_mul_Fin: "a \<noteq> NaN \<Longrightarrow> c \<noteq> 0 \<Longrightarrow> num_mul a (Fin c) \<noteq> NaN"
  by (cases a) auto

lemma not_NaN_Fin_mul: "a \<noteq> NaN \<Longrightarrow> c \<noteq> 0 \<Longrightarrow> num_mul (Fin c) a \<noteq> NaN"
  by (cases a) auto

lemma not_NaN_div_Fin: "a \<noteq> NaN \<Longrightarrow> c \<noteq> 0 \<Longrightarrow> num_div a (Fin c) \<noteq> NaN"
  by (cases a) auto

lemma not_NaN_Fin_add: "a \<noteq> NaN \<Longrightarrow> num_add (Fin c) a \<noteq> NaN"
  by (cases a) auto

lemma not_NaN_add_Fin: "a \<noteq> NaN \<Longrightarrow> num_add a (Fin c) \<noteq> NaN"
  by (cases a) auto

lemma not_NaN_neg: "a \<noteq> NaN \<Longrightarrow> num_neg a \<noteq> NaN"
  by (cases a) auto

lemma not_NaN_Fin_sub: "a \<noteq> NaN \<Longrightarrow> num_sub (Fin c) a \<noteq> NaN"
  by (cases a) (auto simp: num_sub_def)

lemma not_NaN_sub_Fin: "a \<noteq> NaN \<Longrightarrow> num_sub a (Fin c) \<noteq> NaN"
  by (cases a) (auto simp: num_sub_def)

lemma num_mul_NaN_right [simp]: "num_mul a NaN = NaN"
  by (cases a) simp_all

lemma Math_max_NaN_right [simp]: "Math_max a NaN = NaN"
  by (cases a) simp_all

lemma Math_max_Fin [simp]: "Math_max (Fin a) (Fin b) = Fin (max a b)"
  by (simp add: max_def)

lemma Math_min_Fin [simp]: "Math_min (Fin a) (Fin b) = Fin (min a b)"
  by (simp add: min_def)


lemma clamp_range:
  assumes "x \<noteq> NaN" "lo \<le> hi"
  shows "\<exists>p. Math_max (Fin lo) (Math_min (Fin hi) x) = Fin p \<and> lo \<le> p \<and> p \<le> hi"
  using assms by (cases x) (auto simp: max_def min_def)



lemma Math_pow_10_nonneg: "x \<noteq> NaN \<Longrightarrow> num_le (Fin 0) (Math_pow (Fin 10) x)"
  by (cases x) (auto simp: Math_pow_def fl_nonneg)



subsection \<open>Monotonicity of the operators\<close>









subsection \<open>Dose, volume, retention time and baffle factor\<close>

lemma dose_mgL_ieee_not_NaN: "dose_mgL_ieee s \<noteq> NaN"
  by (simp add: dose_mgL_ieee_def not_NaN_div_Fin not_NaN_mul_Fin)









lemma bf_ieee_Fin: "\<exists>b. bf_ieee s = Fin b \<and> 0 \<le> b"
  by (cases "isBaffled s") (auto simp: bf_ieee_def intro: exI [of _ "1 / 10"])




subsection \<open>Post-dose pH and the HOCl fraction\<close>

text \<open>
  The post-dose pH is a finite number between 2 and 12, \<open>pKa\<close> is never \<^verbatim>\<open>NaN\<close>, and
  so the fraction is a number from 0 to 1. It is 1 at \<open>-273.15\<close> degrees, where
  \<^verbatim>\<open>3000 / tKelvin\<close> is \<^verbatim>\<open>Infinity\<close>, and 0 at \<open>-283.15\<close> degrees, where \<open>pKa\<close> is
  about \<open>-310\<close> and the power of 10 overflows.
\<close>

lemma postDosePh_ieee_Fin: "\<exists>p. postDosePh_ieee s = Fin p \<and> 2 \<le> p \<and> p \<le> 12"
proof -
  have b: "Math_max (Fin (alkalinity s)) (Fin 10) = Fin (max (alkalinity s) 10)"
    by simp
  have m: "max (alkalinity s) 10 \<noteq> 0"
    by simp
  have q: "num_div (num_mul (Fin c) (dose_mgL_ieee s)) (Fin (max (alkalinity s) 10)) \<noteq> NaN"
    if "c \<noteq> 0" for c
    using that dose_mgL_ieee_not_NaN m by (intro not_NaN_div_Fin not_NaN_Fin_mul)
  show ?thesis
    unfolding postDosePh_ieee_def b
    by (rule clamp_range) (auto intro!: not_NaN_Fin_sub not_NaN_Fin_add q)
qed

lemma pKa_ieee_not_NaN: "pKa_ieee s \<noteq> NaN"
proof (cases "tKelvin_ieee s")
  case NaN
  then show ?thesis by (simp add: tKelvin_ieee_def)
next
  case NInf
  then show ?thesis by (simp add: pKa_ieee_def num_sub_def fl_exact')
next
  case PInf
  then show ?thesis by (simp add: pKa_ieee_def num_sub_def fl_exact')
next
  case (Fin t)
  then have "fl (temperature s + 273.15) = Fin t"
    by (simp add: tKelvin_ieee_def)
  then have t: "\<bar>t\<bar> < OVERFLOW"
    using range_facts by (cases "temperature s + 273.15" rule: fl_cases) auto
  then have "\<bar>0.0253 * t\<bar> < OVERFLOW"
    by (simp add: abs_mult)
  then have "\<exists>b. fl (0.0253 * t) = Fin b"
    by (rule fl_Fin_ex)
  then obtain b where b: "num_mul (Fin 0.0253) (Fin t) = Fin b"
    by auto
  have "num_div (Fin 3000) (Fin t) \<noteq> NaN"
    by simp
  then have "num_sub (num_div (Fin 3000) (Fin t)) (Fin 10.0686) \<noteq> NaN"
    by (rule not_NaN_sub_Fin)
  then show ?thesis
    unfolding pKa_ieee_def Fin b by (rule not_NaN_add_Fin)
qed

lemma fraction_range:
  assumes "num_le (Fin 0) P"
  shows "num_le (Fin 0) (num_div (Fin 1) (num_add (Fin 1) P)) \<and>
         num_le (num_div (Fin 1) (num_add (Fin 1) P)) (Fin 1)"
  using assms
proof (cases P rule: nonneg_cases)
  case pinf
  then show ?thesis by simp
next
  case (fin r)
  show ?thesis
  proof (cases "1 + r" rule: fl_cases)
    case pinf
    then show ?thesis using fin by simp
  next
    case ninf
    then show ?thesis using fin range_facts by simp
  next
    case zero
    then show ?thesis using fin range_facts by simp
  next
    case fin': fin
    have "0 \<le> 1 / (1 + r)" "1 / (1 + r) \<le> 1"
      using fin by simp_all
    then have "num_le (Fin 0) (fl (1 / (1 + r))) \<and> num_le (fl (1 / (1 + r))) (Fin 1)"
      by (rule fl_unit_interval)
    then show ?thesis
      using fin fin' by simp
  qed
qed

lemma hoClFraction_ieee_range:
  "num_le (Fin 0) (hoClFraction_ieee s) \<and> num_le (hoClFraction_ieee s) (Fin 1)"
proof -
  obtain p where p: "postDosePh_ieee s = Fin p"
    using postDosePh_ieee_Fin by blast
  have "num_sub (postDosePh_ieee s) (pKa_ieee s) \<noteq> NaN"
    unfolding p using pKa_ieee_not_NaN by (rule not_NaN_Fin_sub)
  then have "num_le (Fin 0) (Math_pow (Fin 10) (num_sub (postDosePh_ieee s) (pKa_ieee s)))"
    by (rule Math_pow_10_nonneg)
  then show ?thesis
    unfolding hoClFraction_ieee_def by (rule fraction_range)
qed

lemma hoClFraction_ieee_absolute_zero:
  assumes "temperature s = - 273.15"
  shows "hoClFraction_ieee s = Fin 1"
proof -
  obtain p where p: "postDosePh_ieee s = Fin p"
    using postDosePh_ieee_Fin by blast
  have "tKelvin_ieee s = Fin 0"
    using assms by (simp add: tKelvin_ieee_def)
  then have "pKa_ieee s = PInf"
    by (simp add: pKa_ieee_def num_sub_def)
  then show ?thesis
    by (simp add: hoClFraction_ieee_def p num_sub_def Math_pow_def fl_exact')
qed

lemma hoClFraction_ieee_overflow:
  assumes "temperature s = - 283.15"
  shows "hoClFraction_ieee s = Fin 0"
proof -
  obtain p where p: "postDosePh_ieee s = Fin p" "2 \<le> p" "p \<le> 12"
    using postDosePh_ieee_Fin by blast
  have "tKelvin_ieee s = Fin (- 10)"
    using assms by (simp add: tKelvin_ieee_def fl_exact')
  then have "pKa_ieee s = Fin (- 310.3216)"
    by (simp add: pKa_ieee_def num_sub_def fl_exact')
  then have x: "num_sub (postDosePh_ieee s) (pKa_ieee s) = Fin (p + 310.3216)"
    using p by (simp add: num_sub_def fl_exact')
  have "(10::real) powr 312 \<le> 10 powr (p + 310.3216)"
    using p by (intro powr_mono) simp_all
  moreover have "(10::real) powr 312 = 10 ^ 312"
    by (simp add: powr_realpow [symmetric])
  moreover have "OVERFLOW < 10 ^ 312"
    using OVERFLOW_lt by (rule order.strict_trans) simp
  ultimately have "OVERFLOW \<le> 10 powr (p + 310.3216)"
    by linarith
  then have "Math_pow (Fin 10) (Fin (p + 310.3216)) = PInf"
    using p by (simp add: Math_pow_def fl_overflow)
  then show ?thesis
    by (simp add: hoClFraction_ieee_def x)
qed

subsection \<open>Ct values\<close>


subsection \<open>The virus lookup\<close>




lemma double_at: "num_mul (Fin 2) (Fin 0) = Fin 0" "num_mul (Fin 2) (Fin 1) = Fin 2"
  by (simp_all add: fl_exact')




lemma lookupVirusLrv_ieee_NaN [simp]: "lookupVirusLrv_ieee NaN = NaN"
  by (simp add: lookupVirusLrv_ieee_def num_sub_def)

subsection \<open>The two LRV models\<close>





subsection \<open>The scenarios\<close>

text \<open>On Scenario A the IEEE model returns the values of the exact model.\<close>

lemma scenarioA_ieee_agrees:
  "volume (calculateResults_ieee scenarioA) = Fin (volume (calculateResults scenarioA))"
  "chlorineDose (calculateResults_ieee scenarioA) = Fin (chlorineDose (calculateResults scenarioA))"
  "retentionTime (calculateResults_ieee scenarioA) = Fin (retentionTime (calculateResults scenarioA))"
  "t10 (calculateResults_ieee scenarioA) = Fin (t10 (calculateResults scenarioA))"
  "ctDose (calculateResults_ieee scenarioA) = Fin (ctDose (calculateResults scenarioA))"
proof -
  have d: "dose_mgL_ieee scenarioA = Fin 1.5"
    by (simp add: dose_mgL_ieee_def scenarioA_def fl_exact')
  have v: "vol_ieee scenarioA = Fin 300"
    by (simp add: vol_ieee_def clamp0_def dflt0_def scenarioA_def fl_exact')
  have "q_m3h_ieee scenarioA = Fin (10000 / 24)"
    by (simp add: q_m3h_ieee_def scenarioA_def fl_exact')
  then have m: "t_min_ieee scenarioA = Fin 43.2"
    using v by (simp add: t_min_ieee_def fl_exact')
  have "bf_ieee scenarioA = Fin 0.5"
    by (simp add: bf_ieee_def scenarioA_def)
  then have t: "t10_ieee scenarioA = Fin 21.6"
    using m by (simp add: t10_ieee_def fl_exact')
  have c: "ctDose_ieee scenarioA = Fin 32.4"
    using d t by (simp add: ctDose_ieee_def fl_exact')
  show "volume (calculateResults_ieee scenarioA) = Fin (volume (calculateResults scenarioA))"
    "chlorineDose (calculateResults_ieee scenarioA) = Fin (chlorineDose (calculateResults scenarioA))"
    "retentionTime (calculateResults_ieee scenarioA) = Fin (retentionTime (calculateResults scenarioA))"
    "t10 (calculateResults_ieee scenarioA) = Fin (t10 (calculateResults scenarioA))"
    "ctDose (calculateResults_ieee scenarioA) = Fin (ctDose (calculateResults scenarioA))"
    using d v m t c
    by (simp_all add: calculateResults_ieee_stages calculateResults_stages ctDose_local_def
        scenarioA_fields)
qed





section \<open>Specified properties\<close>

subsection \<open>Scenario A\<close>

text \<open>
  C1, as stated, fails: on Scenario A the chlorine dose is
  \<open>(5 * 12.5 / 100) * 24 * 1000 / 10000 = 1.5\<close> mg/L, not about 15.0, and the applied
  Ct is \<open>1.5 * 21.6 = 32.4\<close>, not about 324. Neither is within 1 of the stated value.
\<close>

theorem scenarioA_dose_counterexample:
  "chlorineDose (calculateResults scenarioA) = 1.5 \<and>
   \<not> \<bar>chlorineDose (calculateResults scenarioA) - 15.0\<bar> \<le> 1 \<and>
   ctDose (calculateResults scenarioA) = 32.4 \<and>
   \<not> \<bar>ctDose (calculateResults scenarioA) - 324\<bar> \<le> 1"
  by (simp add: calculateResults_stages ctDose_local_def scenarioA_fields)

text \<open>
  C1 (amended): for the Scenario A input (flowRate 10000, sodium hypochlorite at 12.5 %
  dosed at 5, a rectangular tank 20 by 5 by 3, baffled with factor 0.5, pH 7.5,
  temperature 20, alkalinity 100, low turbidity), \<open>calculateResults\<close> returns volume 300,
  chlorineDose 1.5 mg/L, retentionTime 43.2 min, t10 21.6 min and ctDose 32.4.
\<close>

theorem scenarioA_results:
  "volume (calculateResults scenarioA) = 300 \<and>
   chlorineDose (calculateResults scenarioA) = 1.5 \<and>
   retentionTime (calculateResults scenarioA) = 43.2 \<and>
   t10 (calculateResults scenarioA) = 21.6 \<and>
   ctDose (calculateResults scenarioA) = 32.4"
  by (simp add: calculateResults_stages ctDose_local_def scenarioA_fields)

subsection \<open>The turbidity gate\<close>

text \<open>
  C2: for every input with turbidity \<open>HIGH\<close>, the four LRV fields of the result
  (lrvBacteriaApplied, lrvBacteriaEffective, lrvVirusApplied, lrvVirusEffective) are
  exactly 0, whatever ctDose and effectiveCt are.
\<close>

theorem high_turbidity_zero_lrv:
  assumes "turbidity s = HIGH"
  shows "lrvBacteriaApplied (calculateResults s) = 0 \<and>
         lrvBacteriaEffective (calculateResults s) = 0 \<and>
         lrvVirusApplied (calculateResults s) = 0 \<and>
         lrvVirusEffective (calculateResults s) = 0"
  using assms by (simp add: calculateResults_stages lrvBacteria_def lrvVirus_def)

text \<open>Scenario B, which is Scenario A with high turbidity, is such an input.\<close>

theorem high_turbidity_zero_lrv_witness:
  "turbidity (scenarioA\<lparr>turbidity := HIGH\<rparr>) = HIGH \<and>
   lrvBacteriaApplied (calculateResults (scenarioA\<lparr>turbidity := HIGH\<rparr>)) = 0 \<and>
   lrvBacteriaEffective (calculateResults (scenarioA\<lparr>turbidity := HIGH\<rparr>)) = 0 \<and>
   lrvVirusApplied (calculateResults (scenarioA\<lparr>turbidity := HIGH\<rparr>)) = 0 \<and>
   lrvVirusEffective (calculateResults (scenarioA\<lparr>turbidity := HIGH\<rparr>)) = 0"
  using high_turbidity_zero_lrv [of "scenarioA\<lparr>turbidity := HIGH\<rparr>"] by simp

subsection \<open>The HOCl fraction\<close>

text \<open>
  C3, as stated, fails at both ends of the interval. At the temperature \<open>-273.15\<close>
  \<open>tKelvin\<close> is 0, the unguarded \<^verbatim>\<open>3000 / tKelvin\<close> is \<^verbatim>\<open>Infinity\<close>, the power of 10
  is 0 and the fraction is exactly 1, not below 1. At \<open>-283.15\<close> \<open>tKelvin\<close> is \<open>-10\<close>,
  \<open>pKa\<close> is \<open>-310.3216\<close>, the power of 10 overflows to \<^verbatim>\<open>Infinity\<close> and the fraction is
  exactly 0, not above 0.
\<close>

theorem hoClFraction_bounds_attained_counterexample:
  "hoClFraction (calculateResults_ieee (scenarioA\<lparr>temperature := - 273.15\<rparr>)) = Fin 1 \<and>
   \<not> num_lt (hoClFraction (calculateResults_ieee (scenarioA\<lparr>temperature := - 273.15\<rparr>))) (Fin 1) \<and>
   hoClFraction (calculateResults_ieee (scenarioA\<lparr>temperature := - 283.15\<rparr>)) = Fin 0 \<and>
   \<not> num_lt (Fin 0) (hoClFraction (calculateResults_ieee (scenarioA\<lparr>temperature := - 283.15\<rparr>)))"
  by (simp add: calculateResults_ieee_stages hoClFraction_ieee_absolute_zero
      hoClFraction_ieee_overflow)

text \<open>
  C3 (amended): for every input (negative temperatures and any pH and alkalinity
  included), the hoClFraction field is a number from 0 to 1, both ends included, and it
  is \<open>1 / (1 + 10^(postDosePh - pKa))\<close> with
  \<open>pKa = 3000 / (temperature + 273.15) - 10.0686 + 0.0253 * (temperature + 273.15)\<close>,
  in the arithmetic of doubles.
\<close>

theorem hoClFraction_ieee_formula_and_range:
  "num_le (Fin 0) (hoClFraction (calculateResults_ieee s)) \<and>
   num_le (hoClFraction (calculateResults_ieee s)) (Fin 1) \<and>
   hoClFraction (calculateResults_ieee s) =
     num_div (Fin 1)
       (num_add (Fin 1)
          (Math_pow (Fin 10)
             (num_sub (postDosePh (calculateResults_ieee s))
                (num_add
                   (num_sub (num_div (Fin 3000) (num_add (Fin (temperature s)) (Fin 273.15)))
                      (Fin 10.0686))
                   (num_mul (Fin 0.0253) (num_add (Fin (temperature s)) (Fin 273.15)))))))"
  using hoClFraction_ieee_range [of s]
  by (simp add: calculateResults_ieee_stages hoClFraction_ieee_def pKa_ieee_def tKelvin_ieee_def)

text \<open>Scenario A, at 20 degrees.\<close>

theorem hoClFraction_ieee_formula_and_range_witness:
  "num_le (Fin 0) (hoClFraction (calculateResults_ieee scenarioA)) \<and>
   num_le (hoClFraction (calculateResults_ieee scenarioA)) (Fin 1)"
  using hoClFraction_ieee_formula_and_range [of scenarioA] by blast

subsection \<open>The virus lookup\<close>

text \<open>
  C4: the virus lookup is continuous and non-decreasing on \<open>Ct20 \<ge> 0\<close>, is 0 for every
  \<open>Ct20 \<le> 0\<close>, continues beyond 3.0 with slope 1.0 (between any two points from 3.0
  on, the value rises by 1.0 times the distance), and satisfies exactly
  \<open>lookup 1.0 = 2.0\<close>, \<open>lookup 2.0 = 3.0\<close>, \<open>lookup 3.0 = 4.0\<close>.
\<close>

theorem lookupVirusLrv_properties:
  "continuous_on {0..} lookupVirusLrv \<and>
   (\<forall>x y. 0 \<le> x \<and> x \<le> y \<longrightarrow> lookupVirusLrv x \<le> lookupVirusLrv y) \<and>
   (\<forall>x. x \<le> 0 \<longrightarrow> lookupVirusLrv x = 0) \<and>
   (\<forall>x y. 3.0 \<le> x \<and> x \<le> y \<longrightarrow> lookupVirusLrv y - lookupVirusLrv x = 1.0 * (y - x)) \<and>
   lookupVirusLrv 1.0 = 2.0 \<and> lookupVirusLrv 2.0 = 3.0 \<and> lookupVirusLrv 3.0 = 4.0"
proof -
  have "continuous_on {0..} lookupVirusLrv"
    by (rule lookupVirusLrv_continuous)
  moreover have "\<forall>x y. 0 \<le> x \<and> x \<le> y \<longrightarrow> lookupVirusLrv x \<le> lookupVirusLrv y"
    by (simp add: lookupVirusLrv_mono)
  moreover have "\<forall>x. x \<le> 0 \<longrightarrow> lookupVirusLrv x = 0"
    by (simp add: lookupVirusLrv_def)
  moreover have "\<forall>x y. 3.0 \<le> x \<and> x \<le> y \<longrightarrow> lookupVirusLrv y - lookupVirusLrv x = 1.0 * (y - x)"
    by (auto simp add: lookupVirusLrv_def)
  moreover have "lookupVirusLrv 1.0 = 2.0" "lookupVirusLrv 2.0 = 3.0" "lookupVirusLrv 3.0 = 4.0"
    by (simp_all add: lookupVirusLrv_def)
  ultimately show ?thesis by blast
qed

text \<open>The quantified parts at concrete points: 0.5 and 2.5, -1, and 4 and 6.\<close>

theorem lookupVirusLrv_properties_witness:
  "(0::real) \<le> 1/2 \<and> (1/2::real) \<le> 5/2 \<and> lookupVirusLrv (1/2) \<le> lookupVirusLrv (5/2) \<and>
   (-1::real) \<le> 0 \<and> lookupVirusLrv (-1) = 0 \<and>
   (3::real) \<le> 4 \<and> (4::real) \<le> 6 \<and> lookupVirusLrv 6 - lookupVirusLrv 4 = 2"
proof -
  have p: "(0::real) \<le> 1/2 \<and> (1/2::real) \<le> 5/2" "(-1::real) \<le> 0" "(3.0::real) \<le> 4 \<and> (4::real) \<le> 6"
    by simp_all
  from lookupVirusLrv_properties have
    m: "\<forall>x y. 0 \<le> x \<and> x \<le> y \<longrightarrow> lookupVirusLrv x \<le> lookupVirusLrv y" and
    z: "\<forall>x. x \<le> 0 \<longrightarrow> lookupVirusLrv x = 0" and
    e: "\<forall>x y. 3.0 \<le> x \<and> x \<le> y \<longrightarrow> lookupVirusLrv y - lookupVirusLrv x = 1.0 * (y - x)"
    by blast+
  have "lookupVirusLrv (1/2) \<le> lookupVirusLrv (5/2)" using m p(1) by blast
  moreover have "lookupVirusLrv (-1) = 0" using z p(2) by blast
  moreover have "lookupVirusLrv 6 - lookupVirusLrv 4 = 1.0 * (6 - 4)" using e p(3) by blast
  ultimately show ?thesis by simp
qed

subsection \<open>Non-negative outputs\<close>




subsection \<open>Post-dose pH\<close>


subsection \<open>No flow\<close>

text \<open>
  C7: for every input whose flowRate is zero or negative, the result has
  chlorineDose, retentionTime, t10, ctDose and effectiveCt all equal to 0.
\<close>

theorem zero_flow_outputs:
  assumes "flowRate s \<le> 0"
  shows "chlorineDose (calculateResults s) = 0 \<and>
         retentionTime (calculateResults s) = 0 \<and>
         t10 (calculateResults s) = 0 \<and>
         ctDose (calculateResults s) = 0 \<and>
         effectiveCt (calculateResults s) = 0"
  using dose_mgL_zero_flow [OF assms] t_min_zero_flow [OF assms]
  by (simp add: calculateResults_stages ctDose_local_def effectiveCt_local_def)

text \<open>Scenario A with the flow set to 0 is such an input.\<close>

theorem zero_flow_outputs_witness:
  "flowRate (scenarioA\<lparr>flowRate := 0\<rparr>) \<le> 0 \<and>
   chlorineDose (calculateResults (scenarioA\<lparr>flowRate := 0\<rparr>)) = 0 \<and>
   retentionTime (calculateResults (scenarioA\<lparr>flowRate := 0\<rparr>)) = 0 \<and>
   t10 (calculateResults (scenarioA\<lparr>flowRate := 0\<rparr>)) = 0 \<and>
   ctDose (calculateResults (scenarioA\<lparr>flowRate := 0\<rparr>)) = 0 \<and>
   effectiveCt (calculateResults (scenarioA\<lparr>flowRate := 0\<rparr>)) = 0"
proof -
  have h: "flowRate (scenarioA\<lparr>flowRate := 0\<rparr>) \<le> 0"
    by simp
  from zero_flow_outputs [OF h] h show ?thesis
    by blast
qed

subsection \<open>Volume\<close>



subsection \<open>Baffle factor\<close>



subsection \<open>Effective against applied LRV\<close>




end
